theory Spec2Isabelle
  imports Main "HOL-Library.Sublist"
begin

section \<open>Shared data\<close>

text \<open>
  UUIDs are handled by the code only through \<open>str(...)\<close>, equality and use as dictionary keys,
  so they are strings here. A Python \<open>Dict[str, Any]\<close> carrying node inputs and outputs is an
  association list of JSON values.
\<close>

type_synonym uuid = string

datatype json =
    JNull
  | JBool bool
  | JInt int
  | JStr string
  | JList "json list"
  | JObj "(string \<times> json) list"

type_synonym dict = "(string \<times> json) list"

text \<open>\<open>NodeOutputs\<close> (both in \<open>controlunit/fcb/node.py\<close> and \<open>FlowTraceMonitor/main.py\<close>).\<close>

record NodeOutputs =
  out_nodes :: "string list"
  out_outputs :: dict
  out_status :: string
  out_message :: string

section \<open>Trace Recorder (\<open>FlowTraceMonitor/main.py\<close>)\<close>

text \<open>
  The body of \<open>POST /trace\<close>: \<open>NodeExecutionData\<close> of the trace server, the model with the
  field \<open>code_base64\<close>.
\<close>

record TraceData =
  td_node_name :: string
  td_runner_id :: uuid
  td_code_base64 :: string
  td_status :: string
  td_inputs :: dict
  td_logs :: "string list"
  td_outputs :: NodeOutputs


























section \<open>Flow Executor: nodes and dispatch (\<open>controlunit/fcb/node.py\<close>)\<close>

text \<open>
  Exceptions are values. Every constructor is an \<open>Exception\<close> subclass, so each is caught by
  an \<open>except Exception\<close> clause; \<open>HTTPStatusError\<close> and \<open>RequestError\<close> are the two httpx
  classes that \<open>Node.run\<close> catches by name, \<open>ClientError\<close> is aiohttp's.
\<close>

datatype exn =
    ValueError string
  | ValidationError string
  | AttributeError string
  | HTTPStatusError nat string
  | RequestError string
  | ClientError string

fun exn_str :: "exn \<Rightarrow> string" where
  "exn_str (ValueError m) = m"
| "exn_str (ValidationError m) = m"
| "exn_str (AttributeError m) = m"
| "exn_str (HTTPStatusError sc m) = m"
| "exn_str (RequestError m) = m"
| "exn_str (ClientError m) = m"

text \<open>Decimal rendering of a status code inside an f-string.\<close>

fun str_digits :: "nat \<Rightarrow> nat \<Rightarrow> string" where
  "str_digits 0 n = []"
| "str_digits (Suc k) n =
     (if n < 10 then [char_of (48 + n)] else str_digits k (n div 10) @ [char_of (48 + n mod 10)])"

definition str_nat :: "nat \<Rightarrow> string" where
  "str_nat n = str_digits (Suc n) n"

text \<open>The three symbols of the log lines, as their UTF-8 bytes.\<close>

definition rocket :: string where
  "rocket = [char_of (0xF0::nat), char_of (0x9F::nat), char_of (0x9A::nat), char_of (0x80::nat)]"

definition check_mark :: string where
  "check_mark = [char_of (0xE2::nat), char_of (0x9C::nat), char_of (0x85::nat)]"

definition cross_mark :: string where
  "cross_mark = [char_of (0xE2::nat), char_of (0x9D::nat), char_of (0x8C::nat)]"

record Node =
  name :: string
  code :: string
  flow_lvl :: int

text \<open>
  \<open>NodeExecutionData\<close> of the executor. Its third field is \<open>code\<close> (the trace server's model
  calls it \<open>code_base64\<close>); here the field names carry a prefix where another record has the
  same name.
\<close>

record NodeExecutionData =
  node_name :: string
  runner_id :: uuid
  data_code :: string
  data_status :: string
  inputs :: dict
  logs :: "string list"
  outputs :: NodeOutputs

text \<open>
  A pydantic model is built from keyword arguments: every declared field is required (none
  has a default), an unknown keyword is ignored, a missing or ill-typed one raises
  \<open>ValidationError\<close>. The keyword values that occur in \<open>Node.run\<close>:
\<close>

datatype kwarg =
    KStr string
  | KUuid uuid
  | KDict dict
  | KStrList "string list"
  | KOutputs NodeOutputs

definition kw_str :: "(string \<times> kwarg) list \<Rightarrow> string \<Rightarrow> string option" where
  "kw_str kw k = (case map_of kw k of Some (KStr s) \<Rightarrow> Some s | _ \<Rightarrow> None)"

definition kw_uuid :: "(string \<times> kwarg) list \<Rightarrow> string \<Rightarrow> uuid option" where
  "kw_uuid kw k = (case map_of kw k of Some (KUuid u) \<Rightarrow> Some u | _ \<Rightarrow> None)"

definition kw_dict :: "(string \<times> kwarg) list \<Rightarrow> string \<Rightarrow> dict option" where
  "kw_dict kw k = (case map_of kw k of Some (KDict d) \<Rightarrow> Some d | _ \<Rightarrow> None)"

definition kw_strlist :: "(string \<times> kwarg) list \<Rightarrow> string \<Rightarrow> string list option" where
  "kw_strlist kw k = (case map_of kw k of Some (KStrList l) \<Rightarrow> Some l | _ \<Rightarrow> None)"

definition kw_outputs :: "(string \<times> kwarg) list \<Rightarrow> string \<Rightarrow> NodeOutputs option" where
  "kw_outputs kw k = (case map_of kw k of Some (KOutputs out) \<Rightarrow> Some out | _ \<Rightarrow> None)"

text \<open>\<open>NodeExecutionData(**kw)\<close>.\<close>

definition NodeExecutionData_init :: "(string \<times> kwarg) list \<Rightarrow> exn + NodeExecutionData" where
  "NodeExecutionData_init kw =
     (case kw_str kw ''node_name'' of None \<Rightarrow> Inl (ValidationError ''node_name'') | Some n \<Rightarrow>
      case kw_uuid kw ''runner_id'' of None \<Rightarrow> Inl (ValidationError ''runner_id'') | Some r \<Rightarrow>
      case kw_str kw ''code'' of None \<Rightarrow> Inl (ValidationError ''code'') | Some c \<Rightarrow>
      case kw_str kw ''status'' of None \<Rightarrow> Inl (ValidationError ''status'') | Some s \<Rightarrow>
      case kw_dict kw ''inputs'' of None \<Rightarrow> Inl (ValidationError ''inputs'') | Some i \<Rightarrow>
      case kw_strlist kw ''logs'' of None \<Rightarrow> Inl (ValidationError ''logs'') | Some l \<Rightarrow>
      case kw_outputs kw ''outputs'' of None \<Rightarrow> Inl (ValidationError ''outputs'') | Some out \<Rightarrow>
        Inr \<lparr> node_name = n, runner_id = r, data_code = c, data_status = s,
              inputs = i, logs = l, outputs = out \<rparr>)"

text \<open>
  \<open>x.get(k)\<close> on a parsed JSON value: a dictionary answers (\<open>None\<close> for a missing key, the last
  binding of a repeated key), anything else has no \<open>get\<close>.
\<close>

definition json_get :: "json \<Rightarrow> string \<Rightarrow> exn + json" where
  "json_get j k =
     (case j of
        JObj kvs \<Rightarrow> Inr (case map_of (rev kvs) k of None \<Rightarrow> JNull | Some v \<Rightarrow> v)
      | _ \<Rightarrow> Inl (AttributeError ''get''))"

fun json_str :: "json \<Rightarrow> string option" where
  "json_str (JStr s) = Some s"
| "json_str _ = None"

fun json_strs :: "json list \<Rightarrow> string list option" where
  "json_strs [] = Some []"
| "json_strs (j # js) =
     (case json_str j of None \<Rightarrow> None
      | Some s \<Rightarrow> (case json_strs js of None \<Rightarrow> None | Some ss \<Rightarrow> Some (s # ss)))"

text \<open>
  \<open>NodeOutputs(nodes=.., outputs=.., status=.., message=..)\<close> on parsed JSON values, with the
  declared types taken strictly (\<open>List[str]\<close>, \<open>Dict[str, Any]\<close>, \<open>str\<close>, \<open>str\<close>).
\<close>

definition NodeOutputs_init :: "json \<Rightarrow> json \<Rightarrow> json \<Rightarrow> json \<Rightarrow> exn + NodeOutputs" where
  "NodeOutputs_init ns outs st msg =
     (case ns of
        JList js \<Rightarrow>
          (case json_strs js of None \<Rightarrow> Inl (ValidationError ''nodes'') | Some names \<Rightarrow>
           case outs of
             JObj d \<Rightarrow>
               (case json_str st of None \<Rightarrow> Inl (ValidationError ''status'') | Some s \<Rightarrow>
                case json_str msg of None \<Rightarrow> Inl (ValidationError ''message'') | Some m \<Rightarrow>
                  Inr \<lparr> out_nodes = names, out_outputs = d, out_status = s, out_message = m \<rparr>)
           | _ \<Rightarrow> Inl (ValidationError ''outputs''))
      | _ \<Rightarrow> Inl (ValidationError ''nodes''))"

text \<open>
  What \<open>httpx.post(f"{runner_url}/nodes/add-node", ..., timeout=50)\<close> meets: a reply with
  its status code, its text and its body parsed as JSON (\<open>None\<close> when the body is not JSON),
  or no reply at all (host unreachable, timeout), with the text of the \<open>RequestError\<close>.
\<close>

datatype http_reply =
    Reply nat string "json option"
  | NoReply string

definition is_success :: "nat \<Rightarrow> bool" where
  "is_success sc = (200 \<le> sc \<and> sc < 300)"

text \<open>
  The \<open>try\<close> body of \<open>Node.run\<close>. A raise carries the \<open>logs\<close> list as it stands at that
  moment, since the handlers go on appending to the same list.
\<close>

definition Node_run_try ::
  "Node \<Rightarrow> dict \<Rightarrow> uuid \<Rightarrow> http_reply \<Rightarrow> string list \<Rightarrow> (exn \<times> string list) + NodeExecutionData" where
  "Node_run_try self inps rid reply logs0 =
     (case reply of
        NoReply e \<Rightarrow> Inl (RequestError e, logs0)
      | Reply sc text body \<Rightarrow>
          if \<not> is_success sc then Inl (HTTPStatusError sc text, logs0)
          else
           (case body of
              None \<Rightarrow> Inl (ValueError ''Expecting value'', logs0)
            | Some response_json \<Rightarrow>
               (let logs1 = logs0 @ [check_mark @ '' Node executed successfully.''] in
                case json_get response_json ''outputs'' of Inl e \<Rightarrow> Inl (e, logs1) | Inr out \<Rightarrow>
                case json_get out ''nodes'' of Inl e \<Rightarrow> Inl (e, logs1) | Inr ns \<Rightarrow>
                case json_get out ''outputs'' of Inl e \<Rightarrow> Inl (e, logs1) | Inr outs \<Rightarrow>
                case json_get out ''status'' of Inl e \<Rightarrow> Inl (e, logs1) | Inr st \<Rightarrow>
                case json_get out ''message'' of Inl e \<Rightarrow> Inl (e, logs1) | Inr msg \<Rightarrow>
                case NodeOutputs_init ns outs st msg of Inl e \<Rightarrow> Inl (e, logs1) | Inr output \<Rightarrow>
                case NodeExecutionData_init
                       [(''node_name'', KStr (name self)), (''runner_id'', KUuid rid),
                        (''code'', KStr (code self)), (''status'', KStr ''success''),
                        (''inputs'', KDict inps), (''logs'', KStrList logs1),
                        (''outputs'', KOutputs output)] of
                  Inl e \<Rightarrow> Inl (e, logs1)
                | Inr d \<Rightarrow> Inr d)))"

text \<open>
  The value each \<open>except\<close> clause builds and returns. All three pass the node's code under the
  keyword \<open>code_base64\<close>.
\<close>

definition failed_data ::
  "Node \<Rightarrow> dict \<Rightarrow> uuid \<Rightarrow> string list \<Rightarrow> string \<Rightarrow> exn + NodeExecutionData" where
  "failed_data self inps rid logs' msg =
     NodeExecutionData_init
       [(''node_name'', KStr (name self)), (''runner_id'', KUuid rid),
        (''code_base64'', KStr (code self)), (''status'', KStr ''failed''),
        (''inputs'', KDict inps), (''logs'', KStrList logs'),
        (''outputs'', KOutputs \<lparr> out_nodes = [], out_outputs = [], out_status = ''error'',
                                  out_message = msg \<rparr>)]"

text \<open>
  \<open>Node.run(inputs)\<close>; \<open>rid\<close> is the value drawn by \<open>uuid4()\<close>. \<open>Inl\<close> is an exception
  leaving \<open>run\<close>: one raised inside an \<open>except\<close> clause is not caught by its sibling clauses.
\<close>

definition Node_run :: "Node \<Rightarrow> dict \<Rightarrow> uuid \<Rightarrow> http_reply \<Rightarrow> exn + NodeExecutionData" where
  "Node_run self inps rid reply =
     (let logs0 = [rocket @ '' Node '' @ [CHR 0x27] @ name self @ [CHR 0x27]
                     @ '' initialized with runner ID '' @ rid @ ''.'']
      in case Node_run_try self inps rid reply logs0 of
           Inr d \<Rightarrow> Inr d
         | Inl (HTTPStatusError sc text, logs1) \<Rightarrow>
             (let error_msg = cross_mark @ '' HTTP error for node '' @ [CHR 0x27] @ name self
                                @ [CHR 0x27] @ '': '' @ str_nat sc @ '' - '' @ text
              in failed_data self inps rid (logs1 @ [error_msg]) error_msg)
         | Inl (RequestError e, logs1) \<Rightarrow>
             (let error_msg = cross_mark @ '' Request failed for node '' @ [CHR 0x27] @ name self
                                @ [CHR 0x27] @ '': '' @ e
              in failed_data self inps rid (logs1 @ [error_msg]) e)
         | Inl (e, logs1) \<Rightarrow>
             (let error_msg = cross_mark @ '' Unexpected error in node '' @ [CHR 0x27] @ name self
                                @ [CHR 0x27] @ '': '' @ exn_str e
              in failed_data self inps rid (logs1 @ [error_msg]) (exn_str e)))"

section \<open>Flow Executor: flows (\<open>controlunit/fcb/flow.py\<close>)\<close>

record Flow =
  nodes :: "string \<rightharpoonup> Node"
  curr_inp_data :: dict
  curr_node :: "Node option"

definition Flow_init :: "(string \<rightharpoonup> Node) \<Rightarrow> dict \<Rightarrow> Node option \<Rightarrow> Flow" where
  "Flow_init ns curr_inp cn = \<lparr> nodes = ns, curr_inp_data = curr_inp, curr_node = cn \<rparr>"

definition set_pointer :: "Node \<Rightarrow> dict \<Rightarrow> Flow \<Rightarrow> exn + Flow" where
  "set_pointer node inp_data self =
     (if nodes self (name node) \<noteq> None
      then Inr (self\<lparr> curr_node := Some node, curr_inp_data := inp_data \<rparr>)
      else Inl (ValueError (''Node with name '' @ [CHR 0x27] @ name node @ [CHR 0x27]
                             @ '' not present in flow'')))"

definition get_curr_node :: "Flow \<Rightarrow> Node option" where
  "get_curr_node self = curr_node self"

definition get_curr_inp :: "Flow \<Rightarrow> dict" where
  "get_curr_inp self = curr_inp_data self"

text \<open>
  The dictionary of \<open>Flow.to_dict\<close>, which is the \<open>state\<close> of a persisted document. A
  node's own \<open>to_dict\<close> holds exactly its three fields, so the node record stands for it.
\<close>

record FlowState =
  state_nodes :: "string \<rightharpoonup> Node"
  state_curr_inp_data :: dict
  state_curr_node :: "Node option"

definition to_dict :: "Flow \<Rightarrow> FlowState" where
  "to_dict self = \<lparr> state_nodes = nodes self, state_curr_inp_data = curr_inp_data self,
                    state_curr_node = curr_node self \<rparr>"

text \<open>The pointer invariant of the data model: a set pointer names a key of \<open>nodes\<close>.\<close>

definition pointer_ok :: "Flow \<Rightarrow> bool" where
  "pointer_ok fl = (case curr_node fl of None \<Rightarrow> True | Some n \<Rightarrow> nodes fl (name n) \<noteq> None)"

section \<open>Flow Executor: the flow control block (\<open>controlunit/fcb/flow_control_block.py\<close>)\<close>

datatype BlockStatus = QUEUED | START | PAUSE | STOP

record FlowControlBlock =
  flow :: Flow
  flow_id :: uuid
  node_exec_queue :: "(Node \<times> dict) list"
  status :: BlockStatus

definition FlowControlBlock_init :: "Flow \<Rightarrow> uuid \<Rightarrow> FlowControlBlock" where
  "FlowControlBlock_init fl fid =
     \<lparr> flow = fl, flow_id = fid, node_exec_queue = [], status = QUEUED \<rparr>"

text \<open>One \<open>POST /trace?flow_id=..&flow_lvl=..\<close> as \<open>post_trace_request\<close> sends it.\<close>

record TraceRequest =
  tq_flow_id :: uuid
  tq_flow_lvl :: int
  tq_payload :: TraceData

text \<open>
  What \<open>requests.post(url, ..., timeout=10)\<close> followed by \<open>raise_for_status()\<close> and
  \<open>json()\<close> meets: a 2xx reply with its JSON, or a \<open>requests.RequestException\<close>
  (connection error, timeout, HTTP error status).
\<close>

datatype trace_reply =
    TraceOk json
  | TraceRequestException string

text \<open>
  The state of the executor process. An FCB object is shared by reference between
  \<open>FlowControlBlockQueue.Blocks\<close> and the \<open>_run_node\<close> tasks handed to the thread pool, so the
  objects live in a store addressed by their \<open>flow_id\<close> (drawn by \<open>uuid4()\<close>, or read from
  the one document kept per flow), and \<open>Blocks\<close> holds the keys under which the queue still
  references them. \<open>fcb_collection\<close> is the MongoDB collection of \<open>{flow_id, state}\<close>
  documents, \<open>threadpool\<close> the \<open>_run_node\<close> tasks submitted and not yet run, and
  \<open>trace_requests\<close> the trace posts sent so far.
\<close>

record FlowControlBlockQueue =
  objects :: "uuid \<rightharpoonup> FlowControlBlock"
  Blocks :: "uuid set"
  fcb_collection :: "(uuid \<times> FlowState) list"
  threadpool :: "uuid list"
  trace_requests :: "TraceRequest list"

definition set_status :: "uuid \<Rightarrow> BlockStatus \<Rightarrow> FlowControlBlockQueue \<Rightarrow> FlowControlBlockQueue" where
  "set_status fid s q =
     (case objects q fid of
        None \<Rightarrow> q
      | Some self \<Rightarrow> q\<lparr> objects := (objects q)(fid \<mapsto> self\<lparr> status := s \<rparr>) \<rparr>)"

text \<open>
  \<open>update_one({"flow_id": ..}, {"$set": {"state": ..}}, upsert=True)\<close> and
  \<open>delete_one({"flow_id": ..})\<close> on the collection.
\<close>

fun update_one_upsert :: "uuid \<Rightarrow> FlowState \<Rightarrow> (uuid \<times> FlowState) list \<Rightarrow> (uuid \<times> FlowState) list" where
  "update_one_upsert k v [] = [(k, v)]"
| "update_one_upsert k v ((k', v') # docs) =
     (if k' = k then (k, v) # docs else (k', v') # update_one_upsert k v docs)"

fun delete_one :: "uuid \<Rightarrow> (uuid \<times> FlowState) list \<Rightarrow> (uuid \<times> FlowState) list" where
  "delete_one k [] = []"
| "delete_one k ((k', v') # docs) = (if k' = k then docs else (k', v') # delete_one k docs)"

text \<open>
  \<open>FlowControlBlockQueue.save_state_hook\<close>, the checkpoint callback given to every FCB. Its
  body is one \<open>try\<close> whose handler logs, so it never raises: an id the queue no longer holds
  writes nothing.
\<close>

definition save_state_hook :: "uuid \<Rightarrow> FlowControlBlockQueue \<Rightarrow> FlowControlBlockQueue" where
  "save_state_hook fid q =
     (if fid \<notin> Blocks q then q
      else case objects q fid of
             None \<Rightarrow> q
           | Some fcb \<Rightarrow>
               q\<lparr> fcb_collection := update_one_upsert fid (to_dict (flow fcb)) (fcb_collection q) \<rparr>)"

text \<open>\<open>FlowControlBlock.exec\<close>: hand one \<open>_run_node\<close> to the pool unless paused or stopped.\<close>

definition exec :: "uuid \<Rightarrow> FlowControlBlockQueue \<Rightarrow> FlowControlBlockQueue" where
  "exec fid q =
     (case objects q fid of
        None \<Rightarrow> q
      | Some self \<Rightarrow>
          if status self = PAUSE \<or> status self = STOP then q
          else q\<lparr> threadpool := threadpool q @ [fid] \<rparr>)"

definition start :: "uuid \<Rightarrow> FlowControlBlockQueue \<Rightarrow> FlowControlBlockQueue" where
  "start fid q = exec fid (set_status fid START q)"

text \<open>\<open>FlowControlBlock.stop\<close>: the call of \<open>stop_hook\<close> is commented out in the source.\<close>

definition stop :: "uuid \<Rightarrow> FlowControlBlockQueue \<Rightarrow> FlowControlBlockQueue" where
  "stop fid q = set_status fid STOP q"

definition pause :: "uuid \<Rightarrow> FlowControlBlockQueue \<Rightarrow> FlowControlBlockQueue" where
  "pause fid q = set_status fid PAUSE q"

text \<open>The method the class defines under the name \<open>resumse\<close>.\<close>

definition resumse :: "uuid \<Rightarrow> FlowControlBlockQueue \<Rightarrow> FlowControlBlockQueue" where
  "resumse fid q =
     (case objects q fid of
        None \<Rightarrow> q
      | Some self \<Rightarrow> if status self = PAUSE then exec fid (set_status fid START q) else q)"

text \<open>
  The \<open>for\<close> loop of \<open>exec_hook\<close>. It appends while it goes, so the queue it has built so far
  comes back together with the \<open>ValueError\<close> of the first name the flow does not have.
\<close>

fun enqueue_successors ::
  "string list \<Rightarrow> dict \<Rightarrow> FlowControlBlock \<Rightarrow> exn option \<times> FlowControlBlock" where
  "enqueue_successors [] outs self = (None, self)"
| "enqueue_successors (nname # rest) outs self =
     (case nodes (flow self) nname of
        Some node \<Rightarrow>
          enqueue_successors rest outs
            (self\<lparr> node_exec_queue := node_exec_queue self @ [(node, outs)] \<rparr>)
      | None \<Rightarrow>
          (Some (ValueError (''Node '' @ [CHR 0x27] @ nname @ [CHR 0x27]
                              @ '' not present in flow '' @ flow_id self)), self))"

definition put_object :: "uuid \<Rightarrow> FlowControlBlock \<Rightarrow> FlowControlBlockQueue \<Rightarrow> FlowControlBlockQueue" where
  "put_object fid self q = q\<lparr> objects := (objects q)(fid \<mapsto> self) \<rparr>"

text \<open>\<open>FlowControlBlock.exec_hook(result)\<close>; every exception inside ends in \<open>status = STOP\<close>.\<close>

definition exec_hook :: "uuid \<Rightarrow> NodeExecutionData \<Rightarrow> FlowControlBlockQueue \<Rightarrow> FlowControlBlockQueue" where
  "exec_hook fid result q =
     (case objects q fid of
        None \<Rightarrow> q
      | Some self \<Rightarrow>
         (case enqueue_successors (out_nodes (outputs result)) (out_outputs (outputs result)) self of
            (Some e, self1) \<Rightarrow> set_status fid STOP (put_object fid self1 q)
          | (None, self1) \<Rightarrow>
             (case node_exec_queue self1 of
                [] \<Rightarrow> stop fid (put_object fid self1 q)
              | (node, inps) # rest \<Rightarrow>
                 (let self2 = self1\<lparr> node_exec_queue := rest \<rparr> in
                  case set_pointer node inps (flow self2) of
                    Inl e \<Rightarrow> set_status fid STOP (put_object fid self2 q)
                  | Inr fl \<Rightarrow>
                      exec fid (save_state_hook fid (put_object fid (self2\<lparr> flow := fl \<rparr>) q))))))"

text \<open>
  \<open>post_trace_request\<close>: builds the payload (\<open>runner_id\<close> is \<open>str(flow_id)\<close>), posts it, and
  returns the reply's JSON, or \<open>None\<close> when the post raised a \<open>RequestException\<close>.
\<close>

definition post_trace_request ::
  "uuid \<Rightarrow> int \<Rightarrow> string \<Rightarrow> string \<Rightarrow> string \<Rightarrow> dict \<Rightarrow> string list \<Rightarrow> string list \<Rightarrow> dict
     \<Rightarrow> string \<Rightarrow> string \<Rightarrow> trace_reply \<Rightarrow> FlowControlBlockQueue \<Rightarrow> json option \<times> FlowControlBlockQueue" where
  "post_trace_request fid lvl nname code_base64 st inps lgs outputs_nodes outputs_data
       outputs_status outputs_message reply q =
     (let payload = \<lparr> td_node_name = nname, td_runner_id = fid, td_code_base64 = code_base64,
                       td_status = st, td_inputs = inps, td_logs = lgs,
                       td_outputs = \<lparr> out_nodes = outputs_nodes, out_outputs = outputs_data,
                                      out_status = outputs_status, out_message = outputs_message \<rparr> \<rparr>;
          q' = q\<lparr> trace_requests := trace_requests q
                     @ [\<lparr> tq_flow_id = fid, tq_flow_lvl = lvl, tq_payload = payload \<rparr>] \<rparr>
      in case reply of
           TraceOk j \<Rightarrow> (Some j, q')
         | TraceRequestException e \<Rightarrow> (None, q'))"

text \<open>What one step meets outside the process: the drawn runner id and the two HTTP replies.\<close>

record StepEnv =
  env_runner_id :: uuid
  env_reply :: http_reply
  env_trace :: trace_reply

text \<open>
  The rest of the \<open>try\<close> body of \<open>_run_node\<close> once \<open>curr_node.run\<close> has returned \<open>result\<close>:
  \<open>exec_hook\<close> first, then the trace post, whose return value is dropped.
\<close>

definition run_node_result ::
  "uuid \<Rightarrow> Node \<Rightarrow> dict \<Rightarrow> NodeExecutionData \<Rightarrow> trace_reply \<Rightarrow> FlowControlBlockQueue \<Rightarrow> FlowControlBlockQueue" where
  "run_node_result fid cn curr_inp result treply q =
     snd (post_trace_request fid (flow_lvl cn) (name cn) (code cn) (data_status result) curr_inp
            (logs result) (out_nodes (outputs result)) (out_outputs (outputs result))
            (out_status (outputs result)) (out_message (outputs result)) treply
            (exec_hook fid result q))"

text \<open>\<open>FlowControlBlock._run_node\<close>, one step.\<close>

definition run_node :: "uuid \<Rightarrow> StepEnv \<Rightarrow> FlowControlBlockQueue \<Rightarrow> FlowControlBlockQueue" where
  "run_node fid env q =
     (case objects q fid of
        None \<Rightarrow> q
      | Some self \<Rightarrow>
         (case get_curr_node (flow self) of
            None \<Rightarrow> stop fid q
          | Some cn \<Rightarrow>
             (case Node_run cn (get_curr_inp (flow self)) (env_runner_id env) (env_reply env) of
                Inl e \<Rightarrow> set_status fid STOP q
              | Inr result \<Rightarrow>
                  run_node_result fid cn (get_curr_inp (flow self)) result (env_trace env) q)))"

text \<open>A pool worker takes the oldest submitted task and runs it.\<close>

definition run_task :: "StepEnv \<Rightarrow> FlowControlBlockQueue \<Rightarrow> FlowControlBlockQueue" where
  "run_task env q =
     (case threadpool q of
        [] \<Rightarrow> q
      | fid # rest \<Rightarrow> run_node fid env (q\<lparr> threadpool := rest \<rparr>))"

section \<open>Flow Executor: the queue (\<open>controlunit/fcb_queue.py\<close>)\<close>

text \<open>A freshly started executor process over the documents the collection holds.\<close>

definition FlowControlBlockQueue_init :: "(uuid \<times> FlowState) list \<Rightarrow> FlowControlBlockQueue" where
  "FlowControlBlockQueue_init stored =
     \<lparr> objects = Map.empty, Blocks = {}, fcb_collection = stored, threadpool = [],
       trace_requests = [] \<rparr>"

text \<open>
  Attribute lookup on an FCB for a call without arguments: the public methods the class
  \<open>FlowControlBlock\<close> defines, under the names it defines them. Any other name raises
  \<open>AttributeError\<close>.
\<close>

definition FlowControlBlock_method ::
  "string \<Rightarrow> (uuid \<Rightarrow> FlowControlBlockQueue \<Rightarrow> FlowControlBlockQueue) option" where
  "FlowControlBlock_method m =
     (if m = ''start'' then Some start
      else if m = ''stop'' then Some stop
      else if m = ''pause'' then Some pause
      else if m = ''resumse'' then Some resumse
      else None)"

definition call_method :: "string \<Rightarrow> uuid \<Rightarrow> FlowControlBlockQueue \<Rightarrow> exn + FlowControlBlockQueue" where
  "call_method m fid q =
     (case FlowControlBlock_method m of
        None \<Rightarrow> Inl (AttributeError m)
      | Some f \<Rightarrow> Inr (f fid q))"

text \<open>\<open>add_fcb(flow)\<close>; \<open>new_id\<close> is the value drawn by \<open>uuid4()\<close>.\<close>

definition add_fcb :: "uuid \<Rightarrow> Flow \<Rightarrow> FlowControlBlockQueue \<Rightarrow> uuid \<times> FlowControlBlockQueue" where
  "add_fcb new_id fl q =
     (new_id, q\<lparr> objects := (objects q)(new_id \<mapsto> FlowControlBlock_init fl new_id),
                 Blocks := insert new_id (Blocks q) \<rparr>)"

definition not_found :: "uuid \<Rightarrow> exn" where
  "not_found fid = ValueError (''Flow '' @ fid @ '' not found'')"

definition start_fcb :: "uuid \<Rightarrow> FlowControlBlockQueue \<Rightarrow> exn + FlowControlBlockQueue" where
  "start_fcb fid q = (if fid \<notin> Blocks q then Inl (not_found fid) else call_method ''start'' fid q)"

definition stop_fcb :: "uuid \<Rightarrow> FlowControlBlockQueue \<Rightarrow> exn + FlowControlBlockQueue" where
  "stop_fcb fid q =
     (if fid \<notin> Blocks q then Inl (not_found fid)
      else case call_method ''stop'' fid q of
             Inl e \<Rightarrow> Inl e
           | Inr q1 \<Rightarrow> Inr (q1\<lparr> Blocks := Blocks q1 - {fid},
                                fcb_collection := delete_one fid (fcb_collection q1) \<rparr>))"

definition pause_fcb :: "uuid \<Rightarrow> FlowControlBlockQueue \<Rightarrow> exn + FlowControlBlockQueue" where
  "pause_fcb fid q = (if fid \<notin> Blocks q then Inl (not_found fid) else call_method ''pause'' fid q)"

text \<open>\<open>resume_fcb\<close> calls \<open>fcb.resume()\<close>.\<close>

definition resume_fcb :: "uuid \<Rightarrow> FlowControlBlockQueue \<Rightarrow> exn + FlowControlBlockQueue" where
  "resume_fcb fid q = (if fid \<notin> Blocks q then Inl (not_found fid) else call_method ''resume'' fid q)"

text \<open>
  \<open>stop_hook\<close>, the stop callback given to every FCB ("Stop and remove the FCB from MongoDB
  and memory"). Like \<open>save_state_hook\<close> it logs its own exceptions. No FCB method calls it:
  the three calls in \<open>flow_control_block.py\<close> are commented out.
\<close>

definition stop_hook :: "uuid \<Rightarrow> FlowControlBlockQueue \<Rightarrow> FlowControlBlockQueue" where
  "stop_hook fid q =
     (if fid \<notin> Blocks q then q
      else case call_method ''stop'' fid q of
             Inl e \<Rightarrow> q
           | Inr q1 \<Rightarrow> q1\<lparr> Blocks := Blocks q1 - {fid},
                           fcb_collection := delete_one fid (fcb_collection q1) \<rparr>)"

text \<open>
  \<open>recover_from_storage\<close>: one FCB per stored document, registered and started. The loop
  reads the documents found when it starts.
\<close>

definition flow_of_state :: "FlowState \<Rightarrow> Flow" where
  "flow_of_state flow_dict =
     Flow_init (state_nodes flow_dict) (state_curr_inp_data flow_dict) (state_curr_node flow_dict)"

definition recover_block :: "uuid \<times> FlowState \<Rightarrow> FlowControlBlockQueue \<Rightarrow> FlowControlBlockQueue" where
  "recover_block block q =
     (let fl = flow_of_state (snd block);
          fid = fst block
      in start fid (q\<lparr> objects := (objects q)(fid \<mapsto> FlowControlBlock_init fl fid),
                       Blocks := insert fid (Blocks q) \<rparr>))"

definition recover_from_storage :: "FlowControlBlockQueue \<Rightarrow> FlowControlBlockQueue" where
  "recover_from_storage q = fold recover_block (fcb_collection q) q"

section \<open>Flow Executor: HTTP entry points (\<open>FlowKitControlUint/main.py\<close>)\<close>

record NodeDTO =
  dto_name :: string
  dto_code :: string
  dto_flow_lvl :: int

record AddFCBRequest =
  req_nodes :: "string \<rightharpoonup> NodeDTO"
  req_curr_inp :: dict
  req_curr_node :: NodeDTO

definition Node_init :: "string \<Rightarrow> string \<Rightarrow> int \<Rightarrow> Node" where
  "Node_init n c l = \<lparr> name = n, code = c, flow_lvl = l \<rparr>"

definition node_of_dto :: "NodeDTO \<Rightarrow> Node" where
  "node_of_dto d = Node_init (dto_name d) (dto_code d) (dto_flow_lvl d)"

text \<open>
  The \<open>Flow\<close> built by \<open>POST /fcb/add\<close>. \<open>curr_node\<close> is a required field of the request
  model, so the pointer is always set.
\<close>

definition flow_of_request :: "AddFCBRequest \<Rightarrow> Flow" where
  "flow_of_request r =
     Flow_init (\<lambda>k. map_option node_of_dto (req_nodes r k)) (req_curr_inp r)
       (Some (node_of_dto (req_curr_node r)))"

text \<open>
  The handlers return the HTTP status code and the new process state. \<open>except ValueError\<close>
  also takes pydantic's \<open>ValidationError\<close>, a subclass of it.
\<close>

fun is_ValueError :: "exn \<Rightarrow> bool" where
  "is_ValueError (ValueError m) = True"
| "is_ValueError (ValidationError m) = True"
| "is_ValueError e = False"

definition http_add_fcb :: "uuid \<Rightarrow> AddFCBRequest \<Rightarrow> FlowControlBlockQueue \<Rightarrow> nat \<times> FlowControlBlockQueue" where
  "http_add_fcb new_id r q =
     (let (fid, q1) = add_fcb new_id (flow_of_request r) q
      in case start_fcb fid q1 of
           Inl e \<Rightarrow> (500, q1)
         | Inr q2 \<Rightarrow> (200, q2))"

definition http_pause_fcb :: "uuid \<Rightarrow> FlowControlBlockQueue \<Rightarrow> nat \<times> FlowControlBlockQueue" where
  "http_pause_fcb fid q =
     (case pause_fcb fid q of
        Inr q' \<Rightarrow> (200, q')
      | Inl e \<Rightarrow> (if is_ValueError e then (404, q) else (500, q)))"

definition http_resume_fcb :: "uuid \<Rightarrow> FlowControlBlockQueue \<Rightarrow> nat \<times> FlowControlBlockQueue" where
  "http_resume_fcb fid q =
     (case resume_fcb fid q of
        Inr q' \<Rightarrow> (200, q')
      | Inl e \<Rightarrow> (if is_ValueError e then (404, q) else (500, q)))"

section \<open>Node Runner: secret resolution (\<open>node_runner/task_manager/node.py\<close>)\<close>

text \<open>
  The pattern is \<open>\{\{\{secret::(.*?)\}\}\}\<close>: the literal opening, the shortest run of
  characters other than a newline that is followed by the literal closing, and the closing.
  Both literals are ASCII, so matching on the UTF-8 bytes finds the same occurrences as
  matching on code points.
\<close>

definition secret_open :: string where
  "secret_open = ''{{{secret::''"

definition secret_close :: string where
  "secret_close = ''}}}''"

definition placeholder :: "string \<Rightarrow> string" where
  "placeholder key = secret_open @ key @ secret_close"














text \<open>
  Texts seen as a sequence of literal stretches and placeholders, to speak about the
  occurrences of placeholders in a text.
\<close>

datatype piece = Lit string | Ph string



text \<open>A key without brace and newline; a literal stretch without opening brace.\<close>

definition plain_key :: "string \<Rightarrow> bool" where
  "plain_key k = (CHR ''{'' \<notin> set k \<and> CHR ''}'' \<notin> set k \<and> CHR 0x0A \<notin> set k)"

fun piece_ok :: "piece \<Rightarrow> bool" where
  "piece_ok (Lit s) = (CHR ''{'' \<notin> set s)"
| "piece_ok (Ph k) = plain_key k"

definition pieces_ok :: "piece list \<Rightarrow> bool" where
  "pieces_ok ps = list_all piece_ok ps"









section \<open>Observations on the executor state\<close>

definition status_of :: "uuid \<Rightarrow> FlowControlBlockQueue \<Rightarrow> BlockStatus option" where
  "status_of fid q = map_option status (objects q fid)"

definition pointer_of :: "uuid \<Rightarrow> FlowControlBlockQueue \<Rightarrow> string option" where
  "pointer_of fid q =
     (case objects q fid of
        None \<Rightarrow> None
      | Some self \<Rightarrow> map_option name (curr_node (flow self)))"

definition pending_of :: "uuid \<Rightarrow> FlowControlBlockQueue \<Rightarrow> string list" where
  "pending_of fid q =
     (case objects q fid of
        None \<Rightarrow> []
      | Some self \<Rightarrow> map (\<lambda>e. name (fst e)) (node_exec_queue self))"

definition stored_ids :: "FlowControlBlockQueue \<Rightarrow> uuid list" where
  "stored_ids q = map fst (fcb_collection q)"

text \<open>
  The order in which the state machine lets a status move: towards \<open>STOP\<close>, with the one
  step back from \<open>PAUSE\<close> to \<open>START\<close>.
\<close>

fun rank :: "BlockStatus \<Rightarrow> nat" where
  "rank QUEUED = 0"
| "rank START = 1"
| "rank PAUSE = 2"
| "rank STOP = 3"

definition toward_stop :: "BlockStatus \<Rightarrow> BlockStatus \<Rightarrow> bool" where
  "toward_stop a b = (rank a \<le> rank b \<or> (a = PAUSE \<and> b = START))"

definition moves_toward_stop :: "uuid \<Rightarrow> FlowControlBlockQueue \<Rightarrow> FlowControlBlockQueue \<Rightarrow> bool" where
  "moves_toward_stop fid q q' =
     (case status_of fid q of
        None \<Rightarrow> False
      | Some a \<Rightarrow> (case status_of fid q' of None \<Rightarrow> False | Some b \<Rightarrow> toward_stop a b))"

text \<open>Every persisted document holds a flow that satisfies the pointer invariant.\<close>

definition store_ok :: "FlowControlBlockQueue \<Rightarrow> bool" where
  "store_ok q = list_all (\<lambda>d. pointer_ok (flow_of_state (snd d))) (fcb_collection q)"

section \<open>Runs of the executor\<close>

text \<open>
  What happens to the executor process: the three HTTP requests, the queue's \<open>stop\<close>
  operation, a pool worker running the oldest submitted step against what it meets outside,
  and a restart of the process, which comes up with \<open>recover_from_storage\<close> over the
  documents left in the collection.
\<close>

datatype executor_event =
    AddFlow uuid AddFCBRequest
  | PauseFlow uuid
  | ResumeFlow uuid
  | StopFlow uuid
  | WorkerStep StepEnv
  | Restart

fun apply_event :: "executor_event \<Rightarrow> FlowControlBlockQueue \<Rightarrow> FlowControlBlockQueue" where
  "apply_event (AddFlow new_id r) q = snd (http_add_fcb new_id r q)"
| "apply_event (PauseFlow fid) q = snd (http_pause_fcb fid q)"
| "apply_event (ResumeFlow fid) q = snd (http_resume_fcb fid q)"
| "apply_event (StopFlow fid) q = (case stop_fcb fid q of Inl e \<Rightarrow> q | Inr q' \<Rightarrow> q')"
| "apply_event (WorkerStep env) q = run_task env q"
| "apply_event Restart q = recover_from_storage (FlowControlBlockQueue_init (fcb_collection q))"

definition run_events :: "executor_event list \<Rightarrow> FlowControlBlockQueue \<Rightarrow> FlowControlBlockQueue" where
  "run_events evs q = fold apply_event evs q"

section \<open>Concrete flows used by the closed theorems\<close>

definition dto_start :: NodeDTO where
  "dto_start = \<lparr> dto_name = ''start'', dto_code = ''c3RhcnQ='', dto_flow_lvl = 1 \<rparr>"

definition dto_n1 :: NodeDTO where
  "dto_n1 = \<lparr> dto_name = ''n1'', dto_code = ''bjE='', dto_flow_lvl = 2 \<rparr>"

definition dto_ghost :: NodeDTO where
  "dto_ghost = \<lparr> dto_name = ''ghost'', dto_code = ''Z2hvc3Q='', dto_flow_lvl = 1 \<rparr>"

definition node_start :: Node where
  "node_start = node_of_dto dto_start"

definition node_n1 :: Node where
  "node_n1 = node_of_dto dto_n1"

text \<open>The two-node linear flow of the repository's \<open>test/flow_runner_test.py\<close>.\<close>

definition linear_request :: AddFCBRequest where
  "linear_request =
     \<lparr> req_nodes = [''start'' \<mapsto> dto_start, ''n1'' \<mapsto> dto_n1], req_curr_inp = [],
       req_curr_node = dto_start \<rparr>"

text \<open>The same nodes with a pointer that names none of them.\<close>

definition ghost_request :: AddFCBRequest where
  "ghost_request =
     \<lparr> req_nodes = [''start'' \<mapsto> dto_start, ''n1'' \<mapsto> dto_n1], req_curr_inp = [],
       req_curr_node = dto_ghost \<rparr>"

text \<open>
  A 200 reply of the Node Runner's \<open>/nodes/add-node\<close>, reduced to the part \<open>Node.run\<close> reads:
  the task's \<open>outputs\<close> with the successor names and the output data.
\<close>

definition runner_reply :: "string list \<Rightarrow> dict \<Rightarrow> string \<Rightarrow> http_reply" where
  "runner_reply ns outs st =
     Reply 200 []
       (Some (JObj [(''outputs'', JObj [(''nodes'', JList (map JStr ns)), (''outputs'', JObj outs),
                                         (''status'', JStr st), (''message'', JStr ''ok'')])]))"

definition step_env :: "uuid \<Rightarrow> http_reply \<Rightarrow> StepEnv" where
  "step_env rid reply = \<lparr> env_runner_id = rid, env_reply = reply,
                            env_trace = TraceOk (JObj []) \<rparr>"

text \<open>The flow is added and started, and the step of \<open>start\<close> names \<open>n1\<close> as successor.\<close>

definition after_first_step :: FlowControlBlockQueue where
  "after_first_step =
     run_task (step_env ''r1'' (runner_reply [''n1''] [(''a'', JInt 1), (''b'', JInt 2)] ''DONE''))
       (snd (http_add_fcb ''f1'' linear_request (FlowControlBlockQueue_init [])))"

text \<open>Then the step of \<open>n1\<close> names no successor: the flow has run to its end.\<close>

definition after_last_step :: FlowControlBlockQueue where
  "after_last_step =
     run_task (step_env ''r2'' (runner_reply [] [(''out'', JInt 3)] ''DONE'')) after_first_step"

text \<open>The flow right after \<open>POST /fcb/add\<close>: registered, started, its first step submitted.\<close>

definition added_flow :: FlowControlBlockQueue where
  "added_flow = snd (http_add_fcb ''f1'' linear_request (FlowControlBlockQueue_init []))"

definition started_block :: FlowControlBlock where
  "started_block = (FlowControlBlock_init (flow_of_request linear_request) ''f1'')\<lparr> status := START \<rparr>"

text \<open>
  The flow is paused while its first step is in flight; the step completes, checkpoints, and
  submits nothing.
\<close>

definition paused_flow :: FlowControlBlockQueue where
  "paused_flow =
     run_task (step_env ''r1'' (runner_reply [''n1''] [(''a'', JInt 1), (''b'', JInt 2)] ''DONE''))
       (snd (http_pause_fcb ''f1'' added_flow))"

text \<open>
  A result as the \<open>except\<close> clauses of \<open>Node.run\<close> describe it (\<open>failed\<close>, \<open>error\<close>, no
  successors), and one with the same two status fields that names a successor.
\<close>

definition failed_result :: NodeExecutionData where
  "failed_result =
     \<lparr> node_name = ''start'', runner_id = ''r1'', data_code = ''c3RhcnQ='', data_status = ''failed'',
       inputs = [], logs = [],
       outputs = \<lparr> out_nodes = [], out_outputs = [], out_status = ''error'',
                   out_message = ''timed out'' \<rparr> \<rparr>"

definition failed_result_with_successor :: NodeExecutionData where
  "failed_result_with_successor =
     failed_result\<lparr> outputs := \<lparr> out_nodes = [''n1''], out_outputs = [], out_status = ''error'',
                                   out_message = ''timed out'' \<rparr> \<rparr>"

definition ghost_result :: NodeExecutionData where
  "ghost_result =
     \<lparr> node_name = ''start'', runner_id = ''r1'', data_code = ''c3RhcnQ='', data_status = ''success'',
       inputs = [], logs = [],
       outputs = \<lparr> out_nodes = [''n1'', ''ghost''], out_outputs = [(''a'', JInt 1)],
                   out_status = ''DONE'', out_message = ''ok'' \<rparr> \<rparr>"

text \<open>The state a pool worker sees when it has taken the first step of \<open>added_flow\<close>.\<close>

definition first_step_taken :: FlowControlBlockQueue where
  "first_step_taken = added_flow\<lparr> threadpool := [] \<rparr>"

text \<open>A restart of the executor over the documents left by a state.\<close>

definition restarted :: "FlowControlBlockQueue \<Rightarrow> FlowControlBlockQueue" where
  "restarted q = recover_from_storage (FlowControlBlockQueue_init (fcb_collection q))"

text \<open>
  What \<open>Node.run\<close> returns for the node \<open>start\<close>, no inputs and the runner id \<open>r1\<close> when the
  Node Runner answers with the successors \<open>ns\<close>, no output data and the output status \<open>st\<close>.
\<close>

definition runner_result :: "string list \<Rightarrow> string \<Rightarrow> NodeExecutionData" where
  "runner_result ns st =
     \<lparr> node_name = ''start'', runner_id = ''r1'', data_code = ''c3RhcnQ='', data_status = ''success'',
       inputs = [],
       logs = [rocket @ '' Node '' @ [CHR 0x27] @ ''start'' @ [CHR 0x27]
                 @ '' initialized with runner ID r1.'',
               check_mark @ '' Node executed successfully.''],
       outputs = \<lparr> out_nodes = ns, out_outputs = [], out_status = st, out_message = ''ok'' \<rparr> \<rparr>"

text \<open>
  A run: the linear flow and a flow with the pointer \<open>ghost\<close> are added, the first step of
  the linear flow runs, and the executor restarts.
\<close>

definition sample_run :: "executor_event list" where
  "sample_run =
     [AddFlow ''f1'' linear_request, AddFlow ''f2'' ghost_request,
      WorkerStep (step_env ''r1'' (runner_reply [''n1''] [] ''DONE'')), Restart]"

section \<open>Unfolding sets for evaluating concrete runs\<close>

lemmas node_defs = Node_run_def Node_run_try_def NodeExecutionData_init_def NodeOutputs_init_def
  json_get_def kw_str_def kw_uuid_def kw_dict_def kw_strlist_def kw_outputs_def is_success_def
  failed_data_def

lemmas fcb_defs = run_task_def run_node_def run_node_result_def exec_hook_def post_trace_request_def
  set_pointer_def get_curr_node_def get_curr_inp_def save_state_hook_def exec_def start_def stop_def
  pause_def resumse_def set_status_def put_object_def to_dict_def

lemmas queue_defs = FlowControlBlockQueue_init_def FlowControlBlock_method_def call_method_def
  add_fcb_def start_fcb_def stop_fcb_def stop_hook_def pause_fcb_def resume_fcb_def not_found_def
  http_add_fcb_def http_pause_fcb_def http_resume_fcb_def flow_of_request_def Flow_init_def
  FlowControlBlock_init_def Node_init_def node_of_dto_def recover_block_def recover_from_storage_def
  flow_of_state_def

lemmas example_defs = dto_start_def dto_n1_def dto_ghost_def node_start_def node_n1_def
  linear_request_def ghost_request_def runner_reply_def step_env_def added_flow_def
  started_block_def paused_flow_def failed_result_def failed_result_with_successor_def
  ghost_result_def runner_result_def sample_run_def first_step_taken_def restarted_def after_first_step_def after_last_step_def

lemmas obs_defs = status_of_def pointer_of_def pending_of_def stored_ids_def

section \<open>Dispatch failures (\<open>Node.run\<close>)\<close>

lemma failed_data_raises: "failed_data self inps rid lg msg = Inl (ValidationError ''code'')"
  by (simp add: failed_data_def NodeExecutionData_init_def kw_str_def kw_uuid_def)

lemma NodeExecutionData_init_status:
  "NodeExecutionData_init kw = Inr d \<Longrightarrow> kw_str kw ''status'' = Some (data_status d)"
  by (auto simp: NodeExecutionData_init_def split: option.splits)

lemma Node_run_try_status:
  "Node_run_try self inps rid reply l = Inr d \<Longrightarrow> data_status d = ''success''"
  unfolding Node_run_try_def Let_def
  by (auto split: http_reply.splits if_splits option.splits sum.splits
      dest!: NodeExecutionData_init_status simp: kw_str_def)

text \<open>Whatever the \<open>try\<close> body raises, the handler that takes it raises in turn.\<close>

lemma Node_run_cases:
  "Node_run self inps rid reply =
     (case Node_run_try self inps rid reply
             [rocket @ '' Node '' @ [CHR 0x27] @ name self @ [CHR 0x27]
                @ '' initialized with runner ID '' @ rid @ ''.''] of
        Inr d \<Rightarrow> Inr d
      | Inl el \<Rightarrow> Inl (ValidationError ''code''))"
  unfolding Node_run_def Let_def
  by (simp add: failed_data_raises split: sum.splits prod.splits exn.splits)

text \<open>So \<open>Node.run\<close> returns successful results only, and raises one exception only.\<close>

lemma Node_run_success_only:
  "Node_run self inps rid reply = Inr d \<Longrightarrow> data_status d = ''success''"
  by (auto simp: Node_run_cases split: sum.splits dest: Node_run_try_status)

lemma Node_run_raises_code:
  "Node_run self inps rid reply = Inl e \<Longrightarrow> e = ValidationError ''code''"
  by (auto simp: Node_run_cases split: sum.splits)

text \<open>
  C4. The claim: when the HTTP call to the Node Runner fails, \<open>Node.run\<close> returns a
  \<open>NodeExecutionData\<close> with status \<open>failed\<close> and does not raise. The code: with no reply
  (unreachable host, timeout) and with a 503 reply alike, the handler builds the value with
  the keyword \<open>code_base64\<close> where the model's field is \<open>code\<close>, so \<open>Node.run\<close> raises the
  \<open>ValidationError\<close> for the missing field; the step of the FCB ends in \<open>STOP\<close> through the
  \<open>except\<close> of \<open>_run_node\<close> and no trace is posted.
\<close>

theorem Node_run_transport_failure_raises:
  "Node_run self inps rid (NoReply e) = Inl (ValidationError ''code'')
   \<and> Node_run self inps rid (Reply 503 body_text body) = Inl (ValidationError ''code'')
   \<and> status_of ''f1'' (run_task (step_env ''r1'' (NoReply ''timed out'')) added_flow) = Some STOP
   \<and> trace_requests (run_task (step_env ''r1'' (NoReply ''timed out'')) added_flow) = []"
  by (simp add: node_defs fcb_defs queue_defs example_defs obs_defs Let_def)

section \<open>The flow control block: how its methods change the object\<close>

lemma objects_set_status:
  "objects (set_status fid s q) g =
     (if g = fid then map_option (\<lambda>b. b\<lparr> status := s \<rparr>) (objects q fid) else objects q g)"
  by (simp add: set_status_def split: option.splits)

lemma objects_exec: "objects (exec fid q) = objects q"
  by (simp add: exec_def split: option.splits)

lemma objects_save_state_hook: "objects (save_state_hook fid q) = objects q"
  by (simp add: save_state_hook_def split: option.splits)

lemma objects_post_trace_request:
  "objects (snd (post_trace_request fid lvl nname c st inps lgs ns outs ost omsg reply q)) = objects q"
  by (simp add: post_trace_request_def Let_def split: trace_reply.splits)

lemma set_pointer_ok:
  "set_pointer node inp fl = Inr fl' \<Longrightarrow> pointer_ok fl' \<and> nodes fl' = nodes fl"
  by (auto simp: set_pointer_def pointer_ok_def split: if_splits)


lemma enqueue_successors_unknown:
  "list_all (\<lambda>n. nodes (flow self) n \<noteq> None) pre \<Longrightarrow> nodes (flow self) bad = None \<Longrightarrow>
     enqueue_successors (pre @ bad # post) outs self =
       (Some (ValueError (''Node '' @ [CHR 0x27] @ bad @ [CHR 0x27]
                              @ '' not present in flow '' @ flow_id self)),
        self\<lparr> node_exec_queue := node_exec_queue self
                        @ map (\<lambda>n. (the (nodes (flow self) n), outs)) pre \<rparr>)"
  by (induction pre arbitrary: self) auto

lemma enqueue_successors_frame:
  "enqueue_successors ns outs self = (r, self') \<Longrightarrow>
     flow self' = flow self \<and> status self' = status self \<and> flow_id self' = flow_id self"
  by (induction ns arbitrary: self) (auto split: option.splits)

text \<open>
  What \<open>exec_hook\<close> leaves in the object: the status is kept or \<open>STOP\<close>, the flow is kept or
  what \<open>set_pointer\<close> returned.
\<close>

lemma exec_hook_object:
  assumes "objects q fid = Some self"
  shows "\<exists>self'. objects (exec_hook fid result q) fid = Some self'
           \<and> (status self' = status self \<or> status self' = STOP)
           \<and> (flow self' = flow self
                \<or> (\<exists>node inp. set_pointer node inp (flow self) = Inr (flow self')))"
proof -
  obtain r self1 where e:
    "enqueue_successors (out_nodes (outputs result)) (out_outputs (outputs result)) self = (r, self1)"
    by (cases "enqueue_successors (out_nodes (outputs result)) (out_outputs (outputs result)) self")
       auto
  from enqueue_successors_frame [OF e]
  have f: "flow self1 = flow self" "status self1 = status self" by auto
  show ?thesis
    using assms e f
    by (auto simp: exec_hook_def objects_set_status put_object_def stop_def objects_exec
        objects_save_state_hook Let_def
        split: option.splits list.splits sum.splits)
qed

lemma run_node_object:
  assumes "objects q fid = Some self"
  shows "\<exists>self'. objects (run_node fid env q) fid = Some self'
           \<and> (status self' = status self \<or> status self' = STOP)
           \<and> (flow self' = flow self
                \<or> (\<exists>node inp. set_pointer node inp (flow self) = Inr (flow self')))"
proof (cases "get_curr_node (flow self)")
  case None
  then show ?thesis using assms
    by (simp add: run_node_def stop_def objects_set_status)
next
  case (Some cn)
  show ?thesis
  proof (cases "Node_run cn (get_curr_inp (flow self)) (env_runner_id env) (env_reply env)")
    case (Inl e)
    then show ?thesis using assms Some
      by (simp add: run_node_def objects_set_status)
  next
    case (Inr result)
    then show ?thesis using assms Some exec_hook_object [OF assms, of result]
      by (simp add: run_node_def run_node_result_def objects_post_trace_request)
  qed
qed

lemma added_flow_object: "objects added_flow ''f1'' = Some started_block"
  by (simp add: node_defs fcb_defs queue_defs example_defs obs_defs Let_def)

lemma first_step_taken_object: "objects first_step_taken ''f1'' = Some started_block"
  by (simp add: node_defs fcb_defs queue_defs example_defs obs_defs Let_def)

section \<open>Stopped flows and the durable store\<close>

text \<open>
  C1. The claim: every flow that reaches \<open>STOP\<close> has its document deleted from the FCB store.
  The code, on the two-node flow of the repository's test: after the last node has named no
  successor the FCB is \<open>STOP\<close> with nothing submitted, and the document written by the
  checkpoint of the first step is still stored, pointing at \<open>n1\<close>; a restarted executor
  recovers it, starts it and submits \<open>n1\<close> again. \<open>stop_hook\<close>, which no FCB method calls,
  would have deleted it.
\<close>

theorem stopped_flow_document_remains:
  "status_of ''f1'' after_last_step = Some STOP
   \<and> threadpool after_last_step = []
   \<and> stored_ids after_last_step = [''f1'']
   \<and> map (\<lambda>d. map_option name (state_curr_node (snd d))) (fcb_collection after_last_step)
       = [Some ''n1'']
   \<and> status_of ''f1'' (restarted after_last_step) = Some START
   \<and> pointer_of ''f1'' (restarted after_last_step) = Some ''n1''
   \<and> threadpool (restarted after_last_step) = [''f1'']
   \<and> stored_ids (stop_hook ''f1'' after_last_step) = []"
  by (simp add: node_defs fcb_defs queue_defs example_defs obs_defs Let_def)

section \<open>Resume\<close>

text \<open>The method \<open>resumse\<close> itself does what the state machine asks of resume.\<close>

lemma resumse_paused:
  "objects q fid = Some self \<Longrightarrow> status self = PAUSE \<Longrightarrow>
     resumse fid q = q\<lparr> objects := (objects q)(fid \<mapsto> self\<lparr> status := START \<rparr>),
                        threadpool := threadpool q @ [fid] \<rparr>"
  by (simp add: resumse_def exec_def set_status_def)

lemma resumse_not_paused:
  "objects q fid = Some self \<Longrightarrow> status self \<noteq> PAUSE \<Longrightarrow> resumse fid q = q"
  by (simp add: resumse_def)

text \<open>No caller reaches it: the queue asks the FCB for \<open>resume\<close>.\<close>

lemma resume_fcb_raises:
  "fid \<in> Blocks q \<Longrightarrow> resume_fcb fid q = Inl (AttributeError ''resume'')"
  by (simp add: resume_fcb_def call_method_def FlowControlBlock_method_def)

lemma http_resume_fcb_known:
  "fid \<in> Blocks q \<Longrightarrow> http_resume_fcb fid q = (500, q)"
  by (simp add: http_resume_fcb_def resume_fcb_raises)

text \<open>
  C2. The claim: resume on a paused FCB moves it to \<open>START\<close> and submits exactly one step.
  The code, on a flow paused after its first step: \<open>resume_fcb\<close> raises \<open>AttributeError\<close>,
  \<open>POST /fcb/{flow_id}/resume\<close> answers 500 and leaves the state as it was (still \<open>PAUSE\<close>,
  nothing submitted), while the method \<open>resumse\<close>, called directly, would set \<open>START\<close> and
  submit one step.
\<close>

theorem resume_fcb_never_resumes:
  "status_of ''f1'' paused_flow = Some PAUSE
   \<and> pointer_of ''f1'' paused_flow = Some ''n1''
   \<and> threadpool paused_flow = []
   \<and> resume_fcb ''f1'' paused_flow = Inl (AttributeError ''resume'')
   \<and> http_resume_fcb ''f1'' paused_flow = (500, paused_flow)
   \<and> status_of ''f1'' (snd (http_resume_fcb ''f1'' paused_flow)) = Some PAUSE
   \<and> threadpool (snd (http_resume_fcb ''f1'' paused_flow)) = []
   \<and> status_of ''f1'' (resumse ''f1'' paused_flow) = Some START
   \<and> threadpool (resumse ''f1'' paused_flow) = [''f1'']"
  by (simp add: node_defs fcb_defs queue_defs example_defs obs_defs Let_def)

section \<open>What decides the outcome of a step\<close>







section \<open>Unknown successors\<close>

text \<open>
  C5 (as the code has it). When \<open>outputs.nodes\<close> holds a name the flow does not have, the
  FCB moves to \<open>STOP\<close>; the pointer is not advanced, nothing is checkpointed and no step is
  submitted. The names before the first unknown one have been appended to the pending queue
  by then and stay there; the names after it are not looked at.
\<close>

theorem exec_hook_unknown_successor:
  assumes "objects q fid = Some self"
      and "list_all (\<lambda>n. nodes (flow self) n \<noteq> None) pre"
      and "nodes (flow self) bad = None"
      and "out_nodes (outputs result) = pre @ bad # post"
  shows "exec_hook fid result q =
           q\<lparr> objects := (objects q)(fid \<mapsto>
                 self\<lparr> node_exec_queue := node_exec_queue self
                           @ map (\<lambda>n. (the (nodes (flow self) n), out_outputs (outputs result))) pre,
                       status := STOP \<rparr>) \<rparr>"
  using assms
  by (simp add: exec_hook_def enqueue_successors_unknown set_status_def put_object_def)

theorem exec_hook_unknown_successor_witness:
  "objects first_step_taken ''f1'' = Some started_block
   \<and> list_all (\<lambda>n. nodes (flow started_block) n \<noteq> None) [''n1'']
   \<and> nodes (flow started_block) ''ghost'' = None
   \<and> out_nodes (outputs ghost_result) = [''n1''] @ ''ghost'' # []
   \<and> status_of ''f1'' (exec_hook ''f1'' ghost_result first_step_taken) = Some STOP
   \<and> pending_of ''f1'' (exec_hook ''f1'' ghost_result first_step_taken) = [''n1'']
   \<and> pointer_of ''f1'' (exec_hook ''f1'' ghost_result first_step_taken) = Some ''start''
   \<and> threadpool (exec_hook ''f1'' ghost_result first_step_taken) = []
   \<and> stored_ids (exec_hook ''f1'' ghost_result first_step_taken) = []"
proof -
  have h1: "objects first_step_taken ''f1'' = Some started_block"
    by (rule first_step_taken_object)
  have h2: "list_all (\<lambda>n. nodes (flow started_block) n \<noteq> None) [''n1'']"
    by (simp add: started_block_def queue_defs example_defs)
  have h3: "nodes (flow started_block) ''ghost'' = None"
    by (simp add: started_block_def queue_defs example_defs)
  have h4: "out_nodes (outputs ghost_result) = [''n1''] @ ''ghost'' # []"
    by (simp add: ghost_result_def)
  have f: "threadpool first_step_taken = [] \<and> fcb_collection first_step_taken = []"
    by (simp add: queue_defs fcb_defs example_defs Let_def)
  have p: "map_option name (curr_node (flow started_block)) = Some ''start''
           \<and> node_exec_queue started_block = []
           \<and> map_option name (nodes (flow started_block) ''n1'') = Some ''n1''"
    by (simp add: started_block_def queue_defs example_defs)
  note eq = exec_hook_unknown_successor [OF h1 h2 h3 h4]
  show ?thesis
    using p by (auto simp: eq h1 h2 h3 h4 f obs_defs)
qed

text \<open>
  C5 as stated fails on the part "the pending queue gains no entries": with the successors
  \<open>n1, ghost\<close> the step ends in \<open>STOP\<close> and the queue, empty before, holds \<open>n1\<close>.
\<close>

theorem unknown_successor_queue_counterexample:
  "pending_of ''f1'' added_flow = []
   \<and> status_of ''f1'' (run_task (step_env ''r1'' (runner_reply [''n1'', ''ghost''] [] ''DONE'')) added_flow)
       = Some STOP
   \<and> pending_of ''f1'' (run_task (step_env ''r1'' (runner_reply [''n1'', ''ghost''] [] ''DONE'')) added_flow)
       = [''n1'']"
  by (simp add: node_defs fcb_defs queue_defs example_defs obs_defs Let_def)

section \<open>The trace post does not touch the flow\<close>

text \<open>
  C10. A failed trace post never affects the flow: \<open>post_trace_request\<close> returns \<open>None\<close> on a
  request error instead of raising, and the whole executor state after a step (status,
  pointer, pending queue, checkpoint, submitted steps) is the same whether the post failed or
  succeeded.
\<close>

theorem run_node_trace_reply_irrelevant:
  "run_node fid (env\<lparr> env_trace := TraceRequestException e \<rparr>) q
     = run_node fid (env\<lparr> env_trace := TraceOk j \<rparr>) q
   \<and> fst (post_trace_request fid lvl nname c st inps lgs ns outs ost omsg
             (TraceRequestException e) q) = None"
  by (simp add: run_node_def run_node_result_def post_trace_request_def Let_def
      split: option.splits sum.splits)

theorem run_node_trace_reply_irrelevant_witness:
  "run_node ''f1'' (step_env ''r1'' (runner_reply [''n1''] [] ''DONE'')
                     \<lparr> env_trace := TraceRequestException ''connection refused'' \<rparr>) first_step_taken
     = run_node ''f1'' (step_env ''r1'' (runner_reply [''n1''] [] ''DONE'')
                     \<lparr> env_trace := TraceOk (JObj []) \<rparr>) first_step_taken
   \<and> pointer_of ''f1'' (run_node ''f1'' (step_env ''r1'' (runner_reply [''n1''] [] ''DONE'')
                     \<lparr> env_trace := TraceRequestException ''connection refused'' \<rparr>) first_step_taken)
       = Some ''n1''"
proof -
  have "pointer_of ''f1'' (run_node ''f1'' (step_env ''r1'' (runner_reply [''n1''] [] ''DONE'')
                     \<lparr> env_trace := TraceOk (JObj []) \<rparr>) first_step_taken) = Some ''n1''"
    by (simp add: node_defs fcb_defs queue_defs example_defs obs_defs Let_def)
  with run_node_trace_reply_irrelevant
         [where fid = "''f1''" and env = "step_env ''r1'' (runner_reply [''n1''] [] ''DONE'')"
            and e = "''connection refused''" and q = first_step_taken and j = "JObj []"]
  show ?thesis by simp
qed

section \<open>Status transitions\<close>

lemma toward_stop_refl: "toward_stop a a"
  by (simp add: toward_stop_def)

lemma toward_stop_STOP: "toward_stop a STOP"
  by (cases a) (simp_all add: toward_stop_def)

text \<open>Moving towards \<open>STOP\<close> from \<open>STOP\<close> means staying there.\<close>

lemma moves_toward_stop_terminal:
  "status_of fid q = Some STOP \<Longrightarrow> moves_toward_stop fid q q' \<Longrightarrow> status_of fid q' = Some STOP"
proof -
  assume a: "status_of fid q = Some STOP" and m: "moves_toward_stop fid q q'"
  from a m obtain b where b: "status_of fid q' = Some b" "toward_stop STOP b"
    by (auto simp: moves_toward_stop_def split: option.splits)
  from b(2) have "b = STOP" by (cases b) (simp_all add: toward_stop_def)
  with b(1) show ?thesis by simp
qed

text \<open>
  C8 (as the code has it). \<open>stop\<close>, \<open>resumse\<close>, \<open>exec\<close>, \<open>exec_hook\<close> and a whole step
  \<open>_run_node\<close> move the status only towards \<open>STOP\<close> (or from \<open>PAUSE\<close> to \<open>START\<close>), so they
  leave a stopped FCB stopped. \<open>start\<close> and \<open>pause\<close> assign \<open>START\<close> and \<open>PAUSE\<close> without
  looking at the status: they respect the order from every status but \<open>STOP\<close>.
\<close>

theorem status_moves_toward_stop:
  assumes "objects q fid = Some self"
  shows "moves_toward_stop fid q (stop fid q)
       \<and> moves_toward_stop fid q (resumse fid q)
       \<and> moves_toward_stop fid q (exec fid q)
       \<and> moves_toward_stop fid q (exec_hook fid result q)
       \<and> moves_toward_stop fid q (run_node fid env q)
       \<and> status_of fid (start fid q) = Some START
       \<and> status_of fid (pause fid q) = Some PAUSE
       \<and> moves_toward_stop fid q (start fid q) = (status self \<noteq> STOP)
       \<and> moves_toward_stop fid q (pause fid q) = (status self \<noteq> STOP)"
proof -
  have s0: "status_of fid q = Some (status self)"
    using assms by (simp add: status_of_def)
  have a: "moves_toward_stop fid q (stop fid q)"
    using assms
    by (simp add: moves_toward_stop_def status_of_def stop_def objects_set_status toward_stop_STOP)
  have b: "moves_toward_stop fid q (resumse fid q)"
    using assms
    by (cases "status self")
       (simp_all add: moves_toward_stop_def status_of_def resumse_def objects_exec
          objects_set_status toward_stop_def)
  have c: "moves_toward_stop fid q (exec fid q)"
    using assms by (simp add: moves_toward_stop_def status_of_def objects_exec toward_stop_refl)
  have d: "moves_toward_stop fid q (exec_hook fid result q)"
    using assms exec_hook_object [OF assms, of result]
    by (auto simp: moves_toward_stop_def status_of_def toward_stop_refl toward_stop_STOP)
  have e: "moves_toward_stop fid q (run_node fid env q)"
    using assms run_node_object [OF assms, of env]
    by (auto simp: moves_toward_stop_def status_of_def toward_stop_refl toward_stop_STOP)
  have f: "status_of fid (start fid q) = Some START"
    using assms by (simp add: status_of_def start_def objects_exec objects_set_status)
  have g: "status_of fid (pause fid q) = Some PAUSE"
    using assms by (simp add: status_of_def pause_def objects_set_status)
  have h: "moves_toward_stop fid q (start fid q) = (status self \<noteq> STOP)"
    by (cases "status self") (simp_all add: moves_toward_stop_def s0 f toward_stop_def)
  have i: "moves_toward_stop fid q (pause fid q) = (status self \<noteq> STOP)"
    by (cases "status self") (simp_all add: moves_toward_stop_def s0 g toward_stop_def)
  from a b c d e f g h i show ?thesis by simp
qed

text \<open>On the running flow, with a result that names an unknown successor.\<close>

theorem status_moves_toward_stop_witness:
  "objects first_step_taken ''f1'' = Some started_block
   \<and> moves_toward_stop ''f1'' first_step_taken (stop ''f1'' first_step_taken)
   \<and> moves_toward_stop ''f1'' first_step_taken (resumse ''f1'' first_step_taken)
   \<and> moves_toward_stop ''f1'' first_step_taken (exec ''f1'' first_step_taken)
   \<and> moves_toward_stop ''f1'' first_step_taken (exec_hook ''f1'' ghost_result first_step_taken)
   \<and> moves_toward_stop ''f1'' first_step_taken
        (run_node ''f1'' (step_env ''r1'' (NoReply ''timed out'')) first_step_taken)
   \<and> status_of ''f1'' (start ''f1'' first_step_taken) = Some START
   \<and> status_of ''f1'' (pause ''f1'' first_step_taken) = Some PAUSE
   \<and> moves_toward_stop ''f1'' first_step_taken (start ''f1'' first_step_taken)
   \<and> moves_toward_stop ''f1'' first_step_taken (pause ''f1'' first_step_taken)"
proof -
  have h: "objects first_step_taken ''f1'' = Some started_block"
    by (rule first_step_taken_object)
  have s: "status started_block \<noteq> STOP"
    by (simp add: started_block_def)
  from status_moves_toward_stop
         [OF h, of ghost_result "step_env ''r1'' (NoReply ''timed out'')"] h s
  show ?thesis by simp
qed

text \<open>
  C8 as stated fails: the flow that has run to its end is \<open>STOP\<close> and still registered, and
  \<open>POST /fcb/{flow_id}/pause\<close> answers 200 and leaves it \<open>PAUSE\<close>; \<open>start\<close> on it gives
  \<open>START\<close>.
\<close>

theorem pause_after_stop_counterexample:
  "status_of ''f1'' after_last_step = Some STOP
   \<and> fst (http_pause_fcb ''f1'' after_last_step) = 200
   \<and> status_of ''f1'' (snd (http_pause_fcb ''f1'' after_last_step)) = Some PAUSE
   \<and> status_of ''f1'' (start ''f1'' after_last_step) = Some START"
  by (simp add: node_defs fcb_defs queue_defs example_defs obs_defs Let_def)

section \<open>The pointer invariant\<close>

text \<open>The collection changes in \<open>save_state_hook\<close> and \<open>stop_fcb\<close> only.\<close>

lemma collection_set_status: "fcb_collection (set_status fid s q) = fcb_collection q"
  by (simp add: set_status_def split: option.splits)

lemma collection_exec: "fcb_collection (exec fid q) = fcb_collection q"
  by (simp add: exec_def split: option.splits)

lemma collection_post_trace_request:
  "fcb_collection (snd (post_trace_request fid lvl nname c st inps lgs ns outs ost omsg reply q))
     = fcb_collection q"
  by (simp add: post_trace_request_def Let_def split: trace_reply.splits)

lemma list_all_update_one_upsert:
  "list_all P docs \<Longrightarrow> P (k, v) \<Longrightarrow> list_all P (update_one_upsert k v docs)"
  by (induction docs) auto

lemma list_all_delete_one: "list_all P docs \<Longrightarrow> list_all P (delete_one k docs)"
  by (induction docs) auto

lemma flow_of_state_to_dict: "flow_of_state (to_dict fl) = fl"
  by (simp add: flow_of_state_def to_dict_def Flow_init_def)

lemma store_ok_save_state_hook:
  assumes "store_ok q" and "\<And>self. objects q fid = Some self \<Longrightarrow> pointer_ok (flow self)"
  shows "store_ok (save_state_hook fid q)"
  using assms
  by (auto simp: save_state_hook_def store_ok_def flow_of_state_to_dict
        intro!: list_all_update_one_upsert split: option.splits)

lemma store_ok_exec_hook: "store_ok q \<Longrightarrow> store_ok (exec_hook fid result q)"
proof -
  assume ok: "store_ok q"
  have frame: "store_ok (q\<lparr> objects := ob \<rparr>)" for ob
    using ok by (simp add: store_ok_def)
  show ?thesis
  proof (cases "objects q fid")
    case None
    then show ?thesis using ok by (simp add: exec_hook_def)
  next
    case (Some self)
    obtain r self1 where e:
      "enqueue_successors (out_nodes (outputs result)) (out_outputs (outputs result)) self = (r, self1)"
      by (cases "enqueue_successors (out_nodes (outputs result)) (out_outputs (outputs result)) self")
         auto
    have saved: "store_ok (save_state_hook fid (put_object fid (b\<lparr> flow := fl \<rparr>) q))"
      if "set_pointer node inps fl0 = Inr fl" for b fl node inps fl0
    proof (rule store_ok_save_state_hook)
      show "store_ok (put_object fid (b\<lparr> flow := fl \<rparr>) q)"
        by (simp add: put_object_def frame)
      show "pointer_ok (flow self')"
        if "objects (put_object fid (b\<lparr> flow := fl \<rparr>) q) fid = Some self'" for self'
        using that set_pointer_ok [OF \<open>set_pointer node inps fl0 = Inr fl\<close>]
        by (auto simp: put_object_def)
    qed
    show ?thesis
      using Some e saved ok
      by (auto simp: exec_hook_def store_ok_def collection_set_status collection_exec stop_def
            put_object_def Let_def
            split: option.splits list.splits sum.splits)
  qed
qed

lemma store_ok_run_node: "store_ok q \<Longrightarrow> store_ok (run_node fid env q)"
  using store_ok_exec_hook
  by (auto simp: run_node_def run_node_result_def store_ok_def stop_def collection_set_status
        collection_post_trace_request split: option.splits sum.splits)

lemma store_ok_run_task: "store_ok q \<Longrightarrow> store_ok (run_task env q)"
proof (cases "threadpool q")
  case Nil
  then show "store_ok q \<Longrightarrow> store_ok (run_task env q)" by (simp add: run_task_def)
next
  case (Cons fid rest)
  assume "store_ok q"
  then have "store_ok (q\<lparr> threadpool := rest \<rparr>)" by (simp add: store_ok_def)
  then show "store_ok (run_task env q)"
    using Cons by (simp add: run_task_def store_ok_run_node)
qed

lemma collection_recover_block: "fcb_collection (recover_block b q) = fcb_collection q"
  by (simp add: recover_block_def start_def collection_exec collection_set_status Let_def)

lemma collection_fold_recover_block:
  "fcb_collection (fold recover_block docs q) = fcb_collection q"
  by (induction docs arbitrary: q) (simp_all add: collection_recover_block)

text \<open>Recovery creates its objects from the documents, one flow per document.\<close>

lemma objects_recover_block:
  "objects (recover_block b q) fid = Some self \<Longrightarrow>
     objects q fid = Some self \<or> flow self = flow_of_state (snd b)"
  by (auto simp: recover_block_def start_def objects_exec objects_set_status
        FlowControlBlock_init_def Let_def split: if_splits)

lemma objects_fold_recover_block:
  assumes "list_all (\<lambda>d. pointer_ok (flow_of_state (snd d))) docs"
      and "\<And>g b. objects q g = Some b \<Longrightarrow> pointer_ok (flow b)"
      and "objects (fold recover_block docs q) fid = Some self"
  shows "pointer_ok (flow self)"
  using assms
proof (induction docs arbitrary: q)
  case Nil
  then show ?case by simp
next
  case (Cons d docs)
  have step: "pointer_ok (flow b)" if "objects (recover_block d q) g = Some b" for g b
    using objects_recover_block [OF that] Cons.prems(1,2) by auto
  have rest: "list_all (\<lambda>d. pointer_ok (flow_of_state (snd d))) docs"
    using Cons.prems(1) by simp
  have found: "objects (fold recover_block docs (recover_block d q)) fid = Some self"
    using Cons.prems(3) by simp
  show ?case
    by (rule Cons.IH [OF rest _ found]) (rule step)
qed

lemma store_ok_apply_event: "store_ok q \<Longrightarrow> store_ok (apply_event ev q)"
proof (cases ev)
  case (AddFlow new_id r)
  then show "store_ok q \<Longrightarrow> store_ok (apply_event ev q)"
    by (simp add: http_add_fcb_def add_fcb_def start_fcb_def call_method_def
          FlowControlBlock_method_def start_def store_ok_def collection_exec collection_set_status)
next
  case (PauseFlow fid)
  then show "store_ok q \<Longrightarrow> store_ok (apply_event ev q)"
    by (auto simp: http_pause_fcb_def pause_fcb_def call_method_def FlowControlBlock_method_def
          pause_def store_ok_def collection_set_status split: sum.splits)
next
  case (ResumeFlow fid)
  then show "store_ok q \<Longrightarrow> store_ok (apply_event ev q)"
    by (auto simp: http_resume_fcb_def resume_fcb_def call_method_def FlowControlBlock_method_def
          store_ok_def split: sum.splits if_splits)
next
  case (StopFlow fid)
  then show "store_ok q \<Longrightarrow> store_ok (apply_event ev q)"
    by (auto simp: stop_fcb_def call_method_def FlowControlBlock_method_def stop_def store_ok_def
          collection_set_status intro: list_all_delete_one split: sum.splits if_splits)
next
  case (WorkerStep env)
  then show "store_ok q \<Longrightarrow> store_ok (apply_event ev q)"
    by (simp add: store_ok_run_task)
next
  case Restart
  then show "store_ok q \<Longrightarrow> store_ok (apply_event ev q)"
    by (simp add: store_ok_def recover_from_storage_def collection_fold_recover_block
          FlowControlBlockQueue_init_def)
qed

lemma store_ok_run_events: "store_ok q \<Longrightarrow> store_ok (run_events evs q)"
  unfolding run_events_def
  by (induction evs arbitrary: q) (simp_all add: store_ok_apply_event)

text \<open>
  C9 (as the code has it). \<open>set_pointer\<close> checks the name: a flow it returns satisfies the
  pointer invariant, and so \<open>exec_hook\<close> and a whole step keep the invariant of an FCB's flow.
  Documents are written by the checkpoint only, right after \<open>set_pointer\<close>: in every run of
  the executor from an empty store every persisted document satisfies the invariant, and so
  does every flow that a restart recovers. Construction from an \<open>/fcb/add\<close> request does not
  check: the flow satisfies the invariant exactly when the request's \<open>curr_node\<close> names one
  of its nodes.
\<close>

theorem pointer_invariant_kept:
  "(set_pointer node inp fl = Inr fl' \<longrightarrow> pointer_ok fl')
   \<and> (objects q fid = Some self \<and> pointer_ok (flow self)
        \<longrightarrow> (\<exists>self'. objects (exec_hook fid result q) fid = Some self' \<and> pointer_ok (flow self'))
          \<and> (\<exists>self'. objects (run_node fid env q) fid = Some self' \<and> pointer_ok (flow self')))
   \<and> store_ok (run_events evs (FlowControlBlockQueue_init []))
   \<and> (objects (apply_event Restart (run_events evs (FlowControlBlockQueue_init []))) g = Some b
        \<longrightarrow> pointer_ok (flow b))
   \<and> pointer_ok (flow_of_request r) = (req_nodes r (dto_name (req_curr_node r)) \<noteq> None)"
proof -
  have a: "set_pointer node inp fl = Inr fl' \<longrightarrow> pointer_ok fl'"
    using set_pointer_ok by blast
  have b: "\<exists>self'. objects (exec_hook fid result q) fid = Some self' \<and> pointer_ok (flow self')"
    if "objects q fid = Some self" "pointer_ok (flow self)"
    using exec_hook_object [OF that(1), of result] that(2) set_pointer_ok by fastforce
  have c: "\<exists>self'. objects (run_node fid env q) fid = Some self' \<and> pointer_ok (flow self')"
    if "objects q fid = Some self" "pointer_ok (flow self)"
    using run_node_object [OF that(1), of env] that(2) set_pointer_ok by fastforce
  have s0: "store_ok (FlowControlBlockQueue_init [])"
    by (simp add: store_ok_def FlowControlBlockQueue_init_def)
  have d: "store_ok (run_events evs (FlowControlBlockQueue_init []))"
    by (rule store_ok_run_events [OF s0])
  have e: "pointer_ok (flow b)"
    if "objects (apply_event Restart (run_events evs (FlowControlBlockQueue_init []))) g = Some b"
  proof (rule objects_fold_recover_block)
    show "list_all (\<lambda>d. pointer_ok (flow_of_state (snd d)))
            (fcb_collection (run_events evs (FlowControlBlockQueue_init [])))"
      using d by (simp add: store_ok_def)
    show "objects (fold recover_block (fcb_collection (run_events evs (FlowControlBlockQueue_init [])))
                     (FlowControlBlockQueue_init
                        (fcb_collection (run_events evs (FlowControlBlockQueue_init []))))) g = Some b"
      using that by (simp add: recover_from_storage_def FlowControlBlockQueue_init_def)
    show "pointer_ok (flow b')"
      if "objects (FlowControlBlockQueue_init
                     (fcb_collection (run_events evs (FlowControlBlockQueue_init [])))) g' = Some b'"
      for g' b'
      using that by (simp add: FlowControlBlockQueue_init_def)
  qed
  have f: "pointer_ok (flow_of_request r) = (req_nodes r (dto_name (req_curr_node r)) \<noteq> None)"
    by (simp add: pointer_ok_def flow_of_request_def Flow_init_def node_of_dto_def Node_init_def)
  from a b c d e f show ?thesis by blast
qed

text \<open>
  The linear flow: its pointer moved to \<open>n1\<close>, and its first step run; and the sample run, in
  which a flow with a dangling pointer is added as well: what is stored and recovered is the
  checkpoint of the linear flow.
\<close>

theorem pointer_invariant_kept_witness:
  "set_pointer node_n1 [] (flow_of_request linear_request)
     = Inr ((flow_of_request linear_request)\<lparr> curr_node := Some node_n1, curr_inp_data := [] \<rparr>)
   \<and> pointer_ok ((flow_of_request linear_request)\<lparr> curr_node := Some node_n1, curr_inp_data := [] \<rparr>)
   \<and> objects first_step_taken ''f1'' = Some started_block
   \<and> pointer_ok (flow started_block)
   \<and> (\<exists>self'. objects (exec_hook ''f1'' ghost_result first_step_taken) ''f1'' = Some self'
               \<and> pointer_ok (flow self'))
   \<and> (\<exists>self'. objects (run_node ''f1'' (step_env ''r1'' (runner_reply [''n1''] [] ''DONE''))
                           first_step_taken) ''f1'' = Some self'
               \<and> pointer_ok (flow self'))
   \<and> stored_ids (run_events sample_run (FlowControlBlockQueue_init [])) = [''f1'']
   \<and> store_ok (run_events sample_run (FlowControlBlockQueue_init []))
   \<and> (\<exists>b. objects (apply_event Restart (run_events sample_run (FlowControlBlockQueue_init [])))
                ''f1'' = Some b
            \<and> pointer_ok (flow b))
   \<and> pointer_ok (flow_of_request linear_request)"
proof -
  note th = pointer_invariant_kept
    [where node = node_n1 and inp = "[]" and fl = "flow_of_request linear_request"
       and fl' = "(flow_of_request linear_request)\<lparr> curr_node := Some node_n1, curr_inp_data := [] \<rparr>"
       and q = first_step_taken and fid = "''f1''" and self = started_block
       and result = ghost_result
       and env = "step_env ''r1'' (runner_reply [''n1''] [] ''DONE'')"
       and evs = sample_run and g = "''f1''"
       and r = linear_request]
  have h1: "set_pointer node_n1 [] (flow_of_request linear_request)
     = Inr ((flow_of_request linear_request)\<lparr> curr_node := Some node_n1, curr_inp_data := [] \<rparr>)"
    by (simp add: set_pointer_def queue_defs example_defs)
  have h2: "objects first_step_taken ''f1'' = Some started_block"
    by (rule first_step_taken_object)
  have h3: "req_nodes linear_request (dto_name (req_curr_node linear_request)) \<noteq> None"
    by (simp add: example_defs)
  from th h3 have p0: "pointer_ok (flow_of_request linear_request)"
    by blast
  have h4: "pointer_ok (flow started_block)"
    using p0 by (simp add: started_block_def FlowControlBlock_init_def)
  have h5: "stored_ids (run_events sample_run (FlowControlBlockQueue_init [])) = [''f1'']"
    by (simp add: run_events_def node_defs fcb_defs queue_defs example_defs obs_defs Let_def)
  have h6: "\<exists>b. objects (apply_event Restart (run_events sample_run (FlowControlBlockQueue_init [])))
                ''f1'' = Some b"
    by (simp add: run_events_def node_defs fcb_defs queue_defs example_defs obs_defs Let_def)
  from th h1 h2 h3 h4 h5 h6 p0 show ?thesis
    by blast
qed

text \<open>
  C9 as stated fails for construction from a request: \<open>POST /fcb/add\<close> with the pointer
  \<open>ghost\<close>, which is no key of the request's nodes, answers 200 and registers a flow whose
  pointer names no node of the flow.
\<close>

theorem add_fcb_pointer_counterexample:
  "fst (http_add_fcb ''f2'' ghost_request (FlowControlBlockQueue_init [])) = 200
   \<and> pointer_of ''f2'' (snd (http_add_fcb ''f2'' ghost_request (FlowControlBlockQueue_init [])))
       = Some ''ghost''
   \<and> nodes (flow_of_request ghost_request) ''ghost'' = None
   \<and> \<not> pointer_ok (flow_of_request ghost_request)"
  by (simp add: node_defs fcb_defs queue_defs example_defs obs_defs pointer_ok_def Let_def)

section \<open>Secret resolution\<close>







lemma length_placeholder: "length (placeholder k) = 14 + length k"
  by (simp add: placeholder_def secret_open_def secret_close_def)









lemma pieces_ok_append: "pieces_ok (xs @ ys) = (pieces_ok xs \<and> pieces_ok ys)"
  by (simp add: pieces_ok_def)






















section \<open>Trace Recorder: sequence numbers\<close>










end
